theory Spec2Isabelle
  imports Main "HOL-Library.Sublist"
begin

section \<open>Values, exceptions and the csv layer\<close>

text \<open>
  The embedding follows \<^verbatim>\<open>process_lesson.py\<close>. Exceptions are values of the
  type \<open>exn\<close>; a function that may raise returns \<open>exn + 'a\<close>.

  A csv file is modelled by the sequence of records the \<^verbatim>\<open>csv\<close> module reads
  from it or has written to it, each record a list of text fields; the file of zero bytes
  is the empty sequence, and a blank line is the record \<open>[]\<close>. The file system entry
  of a path is \<open>None\<close> when the file does not exist. The quoting and line-ending layer
  of the \<^verbatim>\<open>csv\<close> module is not modelled: a record that is written is the record
  that is read back.
\<close>

datatype exn =
    ValueError | FileNotFoundError | JSONDecodeError | KeyError | TypeError
  | ZeroDivisionError | AttributeError | SystemExit

type_synonym csv_file = "string list list"

text \<open>A Python value read from a csv dictionary: a string, or \<^verbatim>\<open>None\<close>.\<close>

datatype pyval = PyNone | PyStr string

text \<open>\<^verbatim>\<open>d.get(k, default)\<close> on a dictionary.\<close>

definition dict_get :: "('k \<rightharpoonup> 'v) \<Rightarrow> 'k \<Rightarrow> 'v \<Rightarrow> 'v" where
  "dict_get d k dflt = (case d k of None \<Rightarrow> dflt | Some v \<Rightarrow> v)"

text \<open>
  \<^verbatim>\<open>csv.DictReader\<close>: the first record gives the field names; every later record
  that is not blank becomes \<^verbatim>\<open>dict(zip(fieldnames, row))\<close> (a later duplicate of a
  name wins), and the names beyond the end of a short record are bound to
  \<^verbatim>\<open>None\<close>. The surplus fields of a long record go under the key \<^verbatim>\<open>None\<close>,
  which no code of the program reads, so they are left out.
\<close>

definition row_dict :: "string list \<Rightarrow> string list \<Rightarrow> (string \<rightharpoonup> pyval)" where
  "row_dict fieldnames row =
     map_of (rev (zip fieldnames (map PyStr row)))
       ++ map_of (map (\<lambda>k. (k, PyNone)) (drop (length row) fieldnames))"

fun DictReader :: "csv_file \<Rightarrow> (string \<rightharpoonup> pyval) list" where
  "DictReader [] = []"
| "DictReader (fieldnames # rows) =
     map (row_dict fieldnames) (filter (\<lambda>row. row \<noteq> []) rows)"

section \<open>VocabCSVWriter\<close>

definition FIELDNAMES :: "string list" where
  "FIELDNAMES =
     [''Kanji'', ''Reading (Kana)'', ''English'', ''Part of Speech'',
      ''Polite (Masu-form)'', ''Te-form'', ''Short Negative (Nai)'',
      ''Short Past (Ta)'', ''Usage/Notes'']"

text \<open>
  The object state of \<^verbatim>\<open>VocabCSVWriter\<close>. The file \<^verbatim>\<open>OUTPUT_CSV\<close> it
  writes is passed to and returned from every method.
\<close>

record VocabCSVWriter =
  existing_entries :: "(pyval \<times> pyval) set"
  added_count :: nat
  skipped_count :: nat

text \<open>
  \<^verbatim>\<open>_ensure_header\<close>: a file that does not exist or has size zero is opened with
  mode \<^verbatim>\<open>"w"\<close> and receives the header record.
\<close>

definition ensure_header :: "csv_file option \<Rightarrow> csv_file option" where
  "ensure_header f =
     (if f = None \<or> f = Some [] then Some [FIELDNAMES] else f)"

text \<open>
  \<^verbatim>\<open>_load_existing\<close>: opening a missing file for reading raises; otherwise the
  key of every row is added to the set.
\<close>

definition row_key :: "(string \<rightharpoonup> pyval) \<Rightarrow> pyval \<times> pyval" where
  "row_key row =
     (dict_get row ''Kanji'' (PyStr ''''), dict_get row ''Reading (Kana)'' (PyStr ''''))"

definition load_existing ::
  "VocabCSVWriter \<Rightarrow> csv_file option \<Rightarrow> exn + VocabCSVWriter" where
  "load_existing w f =
     (case f of
        None \<Rightarrow> Inl FileNotFoundError
      | Some c \<Rightarrow>
          Inr (fold (\<lambda>row w'. w'\<lparr>existing_entries := insert (row_key row) (existing_entries w')\<rparr>)
                 (DictReader c) w))"

text \<open>\<^verbatim>\<open>__init__\<close>: returns the new object and the file as the constructor leaves it.\<close>

definition init_writer :: "csv_file option \<Rightarrow> (exn + VocabCSVWriter) \<times> csv_file option" where
  "init_writer f =
     (let w = \<lparr>existing_entries = {}, added_count = 0, skipped_count = 0\<rparr>;
          f' = ensure_header f
      in (load_existing w f', f'))"

text \<open>
  An element of the parsed completion: a JSON object, read with \<^verbatim>\<open>entry.get\<close>, whose
  values are text, or a value of another kind, on which \<^verbatim>\<open>entry.get\<close> raises
  \<^verbatim>\<open>AttributeError\<close>.
\<close>

type_synonym entry = "string \<rightharpoonup> string"

datatype element = Obj entry | NonObj

definition entry_key :: "entry \<Rightarrow> pyval \<times> pyval" where
  "entry_key e = (PyStr (dict_get e ''kanji'' ''''), PyStr (dict_get e ''reading'' ''''))"

text \<open>
  The row dictionary built in \<^verbatim>\<open>write_entries\<close>, in the order in which
  \<^verbatim>\<open>DictWriter.writerow\<close> writes its values (that of \<^verbatim>\<open>FIELDNAMES\<close>).
\<close>

definition entry_row :: "entry \<Rightarrow> string list" where
  "entry_row e =
     [dict_get e ''kanji'' '''', dict_get e ''reading'' '''', dict_get e ''english'' '''',
      dict_get e ''pos'' '''', dict_get e ''polite'' '''', dict_get e ''te_form'' '''',
      dict_get e ''negative'' '''', dict_get e ''past'' '''', dict_get e ''notes'' '''']"

text \<open>
  The loop of \<^verbatim>\<open>write_entries\<close> over the entries, on the writer and the content of
  the file opened for appending. An exception leaves the loop with the state reached.
\<close>

fun write_loop ::
  "element list \<Rightarrow> VocabCSVWriter \<Rightarrow> csv_file \<Rightarrow> exn option \<times> VocabCSVWriter \<times> csv_file" where
  "write_loop [] w c = (None, w, c)"
| "write_loop (NonObj # es) w c = (Some AttributeError, w, c)"
| "write_loop (Obj e # es) w c =
     (if entry_key e \<in> existing_entries w
      then write_loop es (w\<lparr>skipped_count := skipped_count w + 1\<rparr>) c
      else write_loop es
             (w\<lparr>existing_entries := insert (entry_key e) (existing_entries w),
                added_count := added_count w + 1\<rparr>)
             (c @ [entry_row e]))"

text \<open>
  \<^verbatim>\<open>write_entries\<close>: mode \<^verbatim>\<open>"a"\<close> creates the file when it is missing.
\<close>

definition write_entries ::
  "VocabCSVWriter \<Rightarrow> csv_file option \<Rightarrow> element list
     \<Rightarrow> exn option \<times> VocabCSVWriter \<times> csv_file option" where
  "write_entries w f entries =
     (let c = (case f of None \<Rightarrow> [] | Some c \<Rightarrow> c);
          (err, w', c') = write_loop entries w c
      in (err, w', Some c'))"

section \<open>Text and integers\<close>

text \<open>
  Text is a list of characters. The conversions below are those of Python on ASCII text:
  \<^verbatim>\<open>int(s)\<close> strips white space, takes an optional sign and then decimal digits,
  which single underscores may separate. Integers are unbounded, and the interpreter's
  limit on the number of digits of a conversion is not modelled; neither are the digits
  and spaces beyond ASCII that \<^verbatim>\<open>int\<close> accepts as well.
\<close>

definition is_digit :: "char \<Rightarrow> bool" where
  "is_digit c = (c \<in> set ''0123456789'')"


definition is_space :: "char \<Rightarrow> bool" where
  "is_space c =
     (c \<in> {CHR 0x09, CHR 0x0A, CHR 0x0B, CHR 0x0C, CHR 0x0D,
            CHR 0x1C, CHR 0x1D, CHR 0x1E, CHR 0x1F, CHR 0x20})"

definition strip :: "string \<Rightarrow> string" where
  "strip s = rev (dropWhile is_space (rev (dropWhile is_space s)))"

definition digit_val :: "char \<Rightarrow> nat" where
  "digit_val c = of_char c - 48"

definition dec_val :: "string \<Rightarrow> nat" where
  "dec_val s = foldl (\<lambda>a c. 10 * a + digit_val c) 0 s"

fun digit_groups :: "string \<Rightarrow> bool" where
  "digit_groups [] = False"
| "digit_groups [c] = is_digit c"
| "digit_groups (c # d # r) =
     (is_digit c \<and> (if d = CHR ''_'' then digit_groups r else digit_groups (d # r)))"

definition py_int :: "string \<Rightarrow> int option" where
  "py_int s =
     (let t = strip s;
          neg = (t \<noteq> [] \<and> hd t = CHR ''-'');
          body = (if t \<noteq> [] \<and> (hd t = CHR ''-'' \<or> hd t = CHR ''+'') then tl t else t)
      in if digit_groups body
         then Some ((if neg then - 1 else 1) * int (dec_val (filter is_digit body)))
         else None)"

definition digit_char :: "nat \<Rightarrow> char" where
  "digit_char d = ''0123456789'' ! d"

fun digits_of :: "nat \<Rightarrow> string" where
  "digits_of n =
     (if n < 10 then [digit_char n] else digits_of (n div 10) @ [digit_char (n mod 10)])"

text \<open>\<^verbatim>\<open>str(n)\<close> of an integer.\<close>

definition py_str :: "int \<Rightarrow> string" where
  "py_str i = (if i < 0 then CHR ''-'' # digits_of (nat (- i)) else digits_of (nat i))"

text \<open>\<^verbatim>\<open>s.zfill(width)\<close>: the zeros go after a leading sign.\<close>

definition zfill :: "nat \<Rightarrow> string \<Rightarrow> string" where
  "zfill width s =
     (if width \<le> length s then s
      else if s \<noteq> [] \<and> (hd s = CHR ''+'' \<or> hd s = CHR ''-'')
           then hd s # replicate (width - length s) CHR ''0'' @ tl s
           else replicate (width - length s) CHR ''0'' @ s)"

text \<open>\<^verbatim>\<open>xs[i:j]\<close>: a negative index counts from the end, and both are clamped.\<close>

definition py_slice :: "'a list \<Rightarrow> int \<Rightarrow> int \<Rightarrow> 'a list" where
  "py_slice xs i j =
     (let n = int (length xs);
          i' = (if i < 0 then max (i + n) 0 else min i n);
          j' = (if j < 0 then max (j + n) 0 else min j n)
      in take (nat (j' - i')) (drop (nat i') xs))"

section \<open>parse_lesson_arg\<close>

text \<open>
  \<^verbatim>\<open>lesson_arg.split("-", 1)\<close> cuts at the first hyphen; \<^verbatim>\<open>range(a, b + 1)\<close>
  is the list of the integers from \<open>a\<close> to \<open>b\<close>.
\<close>

definition parse_lesson_arg :: "string \<Rightarrow> exn + string list" where
  "parse_lesson_arg lesson_arg =
     (if CHR ''-'' \<in> set lesson_arg then
        (let start = takeWhile (\<lambda>c. c \<noteq> CHR ''-'') lesson_arg;
             end_s = tl (dropWhile (\<lambda>c. c \<noteq> CHR ''-'') lesson_arg)
         in case py_int start of
              None \<Rightarrow> Inl ValueError
            | Some start_num \<Rightarrow>
                (case py_int end_s of
                   None \<Rightarrow> Inl ValueError
                 | Some end_num \<Rightarrow>
                     Inr (map (\<lambda>n. zfill 2 (py_str n)) [start_num..(end_num + 1) - 1])))
      else Inr [zfill 2 lesson_arg])"

section \<open>load_schema and create_batch_prompt_template\<close>

text \<open>
  The schema file is modelled by what \<^verbatim>\<open>json.load\<close> makes of its text: text that
  is not JSON, or a document. A document is a JSON object, whose members are kept as the
  text \<^verbatim>\<open>json.dumps\<close> gives for them, or a JSON value of another kind (an array, a
  string, a number, a boolean, null), on which subscription by a string raises
  \<^verbatim>\<open>TypeError\<close>.
\<close>

datatype json_doc = JObject "string \<rightharpoonup> string" | JOther

datatype json_text = NotJSON | Document json_doc

definition load_schema :: "json_text option \<Rightarrow> exn + json_doc" where
  "load_schema f =
     (case f of
        None \<Rightarrow> Inl FileNotFoundError
      | Some NotJSON \<Rightarrow> Inl JSONDecodeError
      | Some (Document d) \<Rightarrow> Inr d)"

text \<open>\<^verbatim>\<open>schema[k]\<close>\<close>

fun subscript :: "json_doc \<Rightarrow> string \<Rightarrow> exn + string" where
  "subscript (JObject m) k = (case m k of None \<Rightarrow> Inl KeyError | Some v \<Rightarrow> Inr v)"
| "subscript JOther k = Inl TypeError"

text \<open>The template is fixed text; the model keeps the three values bound into it.\<close>

record prompt_template =
  columns_info :: string
  verb_exceptions :: string
  irregular_verbs :: string

definition create_batch_prompt_template :: "json_doc \<Rightarrow> exn + prompt_template" where
  "create_batch_prompt_template schema =
     (case subscript schema ''columns'' of
        Inl e \<Rightarrow> Inl e
      | Inr c \<Rightarrow>
          (case subscript schema ''verb_exceptions'' of
             Inl e \<Rightarrow> Inl e
           | Inr v \<Rightarrow>
               (case subscript schema ''irregular_verbs'' of
                  Inl e \<Rightarrow> Inl e
                | Inr i \<Rightarrow>
                    Inr \<lparr>columns_info = c, verb_exceptions = v, irregular_verbs = i\<rparr>)))"

section \<open>load_lesson_vocab and process_vocab_batch\<close>

type_synonym vocab_item = "string \<rightharpoonup> pyval"

definition lesson_file_name :: "string \<Rightarrow> string" where
  "lesson_file_name lesson_num = ''genki_vocab_L'' @ lesson_num @ ''.csv''"

definition load_lesson_vocab ::
  "(string \<Rightarrow> csv_file option) \<Rightarrow> string \<Rightarrow> exn + vocab_item list" where
  "load_lesson_vocab pdir lesson_num =
     (case pdir (lesson_file_name lesson_num) of
        None \<Rightarrow> Inl FileNotFoundError
      | Some c \<Rightarrow> Inr (DictReader c))"

text \<open>
  The completion chain \<^verbatim>\<open>prompt_template | llm | parser\<close> is outside the
  program: it is a parameter, a function of the number of calls made before, the
  template and the prepared batch. Its answer is an exception of class
  \<^verbatim>\<open>Exception\<close>, or the parsed value, taken by its length and its elements: a JSON
  array gives its elements; a JSON object or string, which also have a length and are
  iterated over keys or characters, is the sequence of as many \<open>NonObj\<close>; a value
  without length raises in \<^verbatim>\<open>len\<close>, still inside the \<^verbatim>\<open>try\<close> block and before
  the counter changes, and is covered by \<open>Raises\<close>.
\<close>

datatype response = Raises | Returns "element list"

record prepared =
  word_kana :: pyval
  kanji_form :: pyval
  pos_japanese :: pyval
  english :: pyval

type_synonym chain = "nat \<Rightarrow> prompt_template \<Rightarrow> prepared list \<Rightarrow> response"

definition col_word :: string where
  "col_word = [CHR 0xE5, CHR 0x8D, CHR 0x98, CHR 0xE8, CHR 0xAA, CHR 0x9E]"

definition col_kanji :: string where
  "col_kanji = [CHR 0xE6, CHR 0xBC, CHR 0xA2, CHR 0xE5, CHR 0xAD, CHR 0x97,
                CHR 0xE8, CHR 0xA1, CHR 0xA8, CHR 0xE8, CHR 0xA8, CHR 0x98]"

definition col_pos :: string where
  "col_pos = [CHR 0xE5, CHR 0x93, CHR 0x81, CHR 0xE8, CHR 0xA9, CHR 0x9E]"

definition col_english :: string where
  "col_english = [CHR 0xE8, CHR 0x8B, CHR 0xB1, CHR 0xE8, CHR 0xA8, CHR 0xB3]"

text \<open>\<^verbatim>\<open>a or b\<close>: \<^verbatim>\<open>None\<close> and the empty string are false.\<close>

definition py_or :: "pyval \<Rightarrow> pyval \<Rightarrow> pyval" where
  "py_or a b = (if a = PyNone \<or> a = PyStr [] then b else a)"

definition prepare :: "vocab_item \<Rightarrow> prepared" where
  "prepare item =
     (let wk = dict_get item col_word (PyStr [])
      in \<lparr>word_kana = wk,
          kanji_form = py_or (dict_get item col_kanji (PyStr [])) wk,
          pos_japanese = dict_get item col_pos (PyStr []),
          english = dict_get item col_english (PyStr [])\<rparr>)"

definition process_vocab_batch ::
  "chain \<Rightarrow> nat \<Rightarrow> prompt_template \<Rightarrow> vocab_item list \<Rightarrow> response" where
  "process_vocab_batch llm n prompt items = llm n prompt (map prepare items)"

section \<open>main\<close>

record config =
  lesson :: string
  batch_size :: int
  dry_run :: bool

text \<open>
  What the run finds outside: whether \<^verbatim>\<open>OPENAI_API_KEY\<close> is set to a non-empty
  value once the \<^verbatim>\<open>.env\<close> files are loaded, the schema file, the directory of the
  lesson files and the output file.
\<close>

record world =
  api_key :: bool
  schema_file :: "json_text option"
  processed_dir :: "string \<Rightarrow> csv_file option"
  output_csv :: "csv_file option"

text \<open>
  The lines printed that tell how a lesson or a batch ended; the other lines are left out.
\<close>

datatype event = Banner string | Skipping string | Found nat | BatchOk nat | BatchError

text \<open>
  The variables of \<^verbatim>\<open>main\<close> with the output file, the number of calls of the chain
  so far and the lines printed.
\<close>

record run =
  csv_writer :: "VocabCSVWriter option"
  out_file :: "csv_file option"
  grand_total_processed :: nat
  grand_total_items :: nat
  calls :: nat
  printed :: "event list"

definition total_batches :: "nat \<Rightarrow> int \<Rightarrow> int" where
  "total_batches n bs = (int n + bs - 1) div bs"

definition batch_at :: "'a list \<Rightarrow> int \<Rightarrow> nat \<Rightarrow> 'a list" where
  "batch_at vocab_items bs batch_num =
     (let start_idx = int batch_num * bs;
          end_idx = min (start_idx + bs) (int (length vocab_items))
      in py_slice vocab_items start_idx end_idx)"

text \<open>
  The loop of the dry run that prints the entries of a batch with \<^verbatim>\<open>entry.get\<close>,
  which raises on the first element that is no object.
\<close>

fun print_loop :: "element list \<Rightarrow> exn option" where
  "print_loop [] = None"
| "print_loop (NonObj # es) = Some AttributeError"
| "print_loop (Obj e # es) = print_loop es"

text \<open>
  The body of the loop over the batches. Everything from the call of the chain on is in
  the \<^verbatim>\<open>try\<close> block, whose handler prints the error and goes on. Without a
  writer, the call of its method raises.
\<close>

definition process_batch ::
  "config \<Rightarrow> chain \<Rightarrow> prompt_template \<Rightarrow> vocab_item list \<Rightarrow> nat \<Rightarrow> run \<Rightarrow> run" where
  "process_batch cfg llm prompt vocab_items batch_num r =
     (let batch = batch_at vocab_items (batch_size cfg) batch_num;
          r0 = r\<lparr>calls := calls r + 1\<rparr>
      in case process_vocab_batch llm (calls r) prompt batch of
           Raises \<Rightarrow> r0\<lparr>printed := printed r0 @ [BatchError]\<rparr>
         | Returns results \<Rightarrow>
             (let r1 = r0\<lparr>grand_total_processed := grand_total_processed r0 + length results\<rparr>
              in if dry_run cfg then
                   (case print_loop results of
                      None \<Rightarrow> r1\<lparr>printed := printed r1 @ [BatchOk (length results)]\<rparr>
                    | Some e \<Rightarrow> r1\<lparr>printed := printed r1 @ [BatchError]\<rparr>)
                 else
                   (case csv_writer r1 of
                      None \<Rightarrow> r1\<lparr>printed := printed r1 @ [BatchError]\<rparr>
                    | Some w \<Rightarrow>
                        (case write_entries w (out_file r1) results of
                           (None, w', f') \<Rightarrow>
                             r1\<lparr>csv_writer := Some w', out_file := f',
                                printed := printed r1 @ [BatchOk (length results)]\<rparr>
                         | (Some e, w', f') \<Rightarrow>
                             r1\<lparr>csv_writer := Some w', out_file := f',
                                printed := printed r1 @ [BatchError]\<rparr>))))"

text \<open>
  The body of the loop over the lessons. Only \<^verbatim>\<open>FileNotFoundError\<close> is handled
  around \<^verbatim>\<open>load_lesson_vocab\<close>; the division by the batch size is outside every
  handler. The result is the exception that ends the run, if any, and the state reached.
\<close>

definition process_lesson ::
  "config \<Rightarrow> world \<Rightarrow> chain \<Rightarrow> prompt_template \<Rightarrow> string \<Rightarrow> run \<Rightarrow> exn option \<times> run" where
  "process_lesson cfg wd llm prompt lesson_num r =
     (let r0 = r\<lparr>printed := printed r @ [Banner lesson_num]\<rparr>
      in case load_lesson_vocab (processed_dir wd) lesson_num of
           Inl e \<Rightarrow>
             (if e = FileNotFoundError
              then (None, r0\<lparr>printed := printed r0 @ [Skipping lesson_num]\<rparr>)
              else (Some e, r0))
         | Inr vocab_items \<Rightarrow>
             (let r1 = r0\<lparr>printed := printed r0 @ [Found (length vocab_items)],
                          grand_total_items := grand_total_items r0 + length vocab_items\<rparr>
              in if batch_size cfg = 0 then (Some ZeroDivisionError, r1)
                 else (None,
                       fold (process_batch cfg llm prompt vocab_items)
                         [0..<nat (total_batches (length vocab_items) (batch_size cfg))] r1)))"

fun run_lessons ::
  "config \<Rightarrow> world \<Rightarrow> chain \<Rightarrow> prompt_template \<Rightarrow> string list \<Rightarrow> run \<Rightarrow> exn option \<times> run" where
  "run_lessons cfg wd llm prompt [] r = (None, r)"
| "run_lessons cfg wd llm prompt (lesson_num # rest) r =
     (case process_lesson cfg wd llm prompt lesson_num r of
        (None, r') \<Rightarrow> run_lessons cfg wd llm prompt rest r'
      | (Some e, r') \<Rightarrow> (Some e, r'))"

text \<open>
  \<^verbatim>\<open>main\<close>: the exception that ended the run, if any, and the final state. The
  writer is constructed only when the run is not a dry run.
\<close>

definition main :: "config \<Rightarrow> world \<Rightarrow> chain \<Rightarrow> exn option \<times> run" where
  "main cfg wd llm =
     (let r0 = \<lparr>csv_writer = None, out_file = output_csv wd, grand_total_processed = 0,
                grand_total_items = 0, calls = 0, printed = []\<rparr>
      in if \<not> api_key wd then (Some SystemExit, r0)
         else
           (case parse_lesson_arg (lesson cfg) of
              Inl e \<Rightarrow> (Some e, r0)
            | Inr lesson_nums \<Rightarrow>
                (case load_schema (schema_file wd) of
                   Inl e \<Rightarrow> (Some e, r0)
                 | Inr schema \<Rightarrow>
                     (case create_batch_prompt_template schema of
                        Inl e \<Rightarrow> (Some e, r0)
                      | Inr prompt \<Rightarrow>
                          (if dry_run cfg then run_lessons cfg wd llm prompt lesson_nums r0
                           else
                             (case init_writer (output_csv wd) of
                                (Inl e, f) \<Rightarrow> (Some e, r0\<lparr>out_file := f\<rparr>)
                              | (Inr w, f) \<Rightarrow>
                                  run_lessons cfg wd llm prompt lesson_nums
                                    (r0\<lparr>csv_writer := Some w, out_file := f\<rparr>)))))))"

section \<open>The rows of the output store\<close>

text \<open>
  The keys of the rows of a store, in the order of the rows, as
  \<^verbatim>\<open>_load_existing\<close> reads them; and the format of the output store: a file that is
  missing or empty, or one that starts with the header of nine columns.
\<close>

definition store_keys :: "csv_file option \<Rightarrow> (pyval \<times> pyval) list" where
  "store_keys f = (case f of None \<Rightarrow> [] | Some c \<Rightarrow> map row_key (DictReader c))"


text \<open>The content of the output file, empty when the file is missing.\<close>

definition content :: "csv_file option \<Rightarrow> csv_file" where
  "content f = (case f of None \<Rightarrow> [] | Some c \<Rightarrow> c)"



section \<open>The writer: reading back what was written\<close>




lemma load_fold:
  "fold (\<lambda>row w'. w'\<lparr>existing_entries := insert (row_key row) (existing_entries w')\<rparr>) rs w
     = w\<lparr>existing_entries := existing_entries w \<union> row_key ` set rs\<rparr>"
  by (induction rs arbitrary: w) auto

lemma load_existing_Some:
  "load_existing w (Some c)
     = Inr (w\<lparr>existing_entries := existing_entries w \<union> set (map row_key (DictReader c))\<rparr>)"
  by (simp add: load_existing_def load_fold)

lemma init_writer_eq:
  "init_writer f =
     (Inr \<lparr>existing_entries = set (store_keys (ensure_header f)), added_count = 0, skipped_count = 0\<rparr>,
      ensure_header f)"
  by (cases f) (simp_all add: init_writer_def ensure_header_def load_existing_Some store_keys_def)







section \<open>Key uniqueness of the output store\<close>



section \<open>Constructing the writer\<close>

text \<open>
  Claim C10. Constructing the writer succeeds on every state of the output file. When
  the file is missing, and also when it exists with size zero, the file afterwards is
  the header of nine columns alone; when it exists and is not empty, it is left as it
  was.
\<close>

theorem init_writer_header:
  "(\<exists>w. fst (init_writer f) = Inr w) \<and> length FIELDNAMES = 9 \<and>
   (f = None \<or> f = Some [] \<longrightarrow> snd (init_writer f) = Some [FIELDNAMES]) \<and>
   (\<forall>c. f = Some c \<and> c \<noteq> [] \<longrightarrow> snd (init_writer f) = f)"
  by (auto simp: init_writer_eq ensure_header_def FIELDNAMES_def)

theorem init_writer_header_witness:
  "snd (init_writer None) = Some [FIELDNAMES] \<and>
   snd (init_writer (Some [])) = Some [FIELDNAMES] \<and>
   snd (init_writer (Some [[''x'']])) = Some [[''x'']]"
  using init_writer_header [of None] init_writer_header [of "Some []"]
    init_writer_header [of "Some [[''x'']]"]
  by simp

section \<open>One call of write_entries\<close>


lemma upt_shift: "[0..<Suc n] = 0 # map Suc [0..<n]"
  by (simp add: upt_conv_Cons map_Suc_upt del: upt_Suc)

lemma first_new_Cons:
  "[(e # es) ! i. i \<leftarrow> [0..<length (e # es)],
        entry_key ((e # es) ! i) \<notin> S \<union> entry_key ` set (take i (e # es))]
   = (if entry_key e \<in> S then [] else [e])
     @ [es ! i. i \<leftarrow> [0..<length es],
          entry_key (es ! i) \<notin> insert (entry_key e) S \<union> entry_key ` set (take i es)]"
proof -
  have "(\<lambda>x. if entry_key (es ! x) \<notin> S \<and> entry_key (es ! x) \<noteq> entry_key e \<and>
                  entry_key (es ! x) \<notin> entry_key ` set (take x es)
               then [(e # es) ! Suc x] else [])
        = (\<lambda>i. if entry_key (es ! i) \<noteq> entry_key e \<and> entry_key (es ! i) \<notin> S \<and>
                  entry_key (es ! i) \<notin> entry_key ` set (take i es)
               then [es ! i] else [])"
    by (rule ext) auto
  then show ?thesis
    by (simp add: upt_shift comp_def del: upt_Suc)
qed

lemma length_first_new:
  "length (concat (map (\<lambda>i. if P i then [f i] else []) xs)) \<le> length xs"
  by (induction xs) auto

lemma write_loop_objs:
  "write_loop (map Obj es) w c =
     (let ys = [es ! i. i \<leftarrow> [0..<length es],
                  entry_key (es ! i) \<notin> existing_entries w \<union> entry_key ` set (take i es)]
      in (None,
          w\<lparr>existing_entries := existing_entries w \<union> entry_key ` set es,
            added_count := added_count w + length ys,
            skipped_count := skipped_count w + (length es - length ys)\<rparr>,
          c @ map entry_row ys))"
proof (induction es arbitrary: w c)
  case Nil
  show ?case by simp
next
  case (Cons e es)
  define ys where "ys S = [es ! i. i \<leftarrow> [0..<length es],
                  entry_key (es ! i) \<notin> S \<union> entry_key ` set (take i es)]" for S
  have len: "length (ys S) \<le> length es" for S
    unfolding ys_def using length_first_new[of _ _ "[0..<length es]"] by simp
  have split: "[(e # es) ! i. i \<leftarrow> [0..<length (e # es)],
        entry_key ((e # es) ! i) \<notin> existing_entries w \<union> entry_key ` set (take i (e # es))]
      = (if entry_key e \<in> existing_entries w then [] else [e])
          @ ys (insert (entry_key e) (existing_entries w))"
    unfolding ys_def by (rule first_new_Cons)
  have IH: "write_loop (map Obj es) w' c' =
      (None,
       w'\<lparr>existing_entries := existing_entries w' \<union> entry_key ` set es,
          added_count := added_count w' + length (ys (existing_entries w')),
          skipped_count := skipped_count w' + (length es - length (ys (existing_entries w')))\<rparr>,
       c' @ map entry_row (ys (existing_entries w')))" for w' c'
    unfolding ys_def using Cons.IH[of w' c'] by (simp add: Let_def)
  show ?case
  proof (cases "entry_key e \<in> existing_entries w")
    case True
    then have ins: "insert (entry_key e) (existing_entries w) = existing_entries w" by auto
    have un: "existing_entries w \<union> entry_key ` set (e # es)
                = existing_entries w \<union> entry_key ` set es"
      using True by auto
    show ?thesis
      unfolding Let_def split un
      using True len[of "existing_entries w"] by (simp add: IH ins)
  next
    case False
    have un: "existing_entries w \<union> entry_key ` set (e # es)
                = insert (entry_key e) (existing_entries w) \<union> entry_key ` set es"
      by auto
    show ?thesis
      unfolding Let_def split un
      using False len[of "insert (entry_key e) (existing_entries w)"] by (simp add: IH)
  qed
qed




text \<open>
  Claim C5, as amended. One call of \<^verbatim>\<open>write_entries\<close> on a batch of objects
  raises nothing and appends the row of exactly those records whose key is neither in
  the key set of the writer nor the key of an earlier record of the same batch, in their
  order; every other record is counted as skipped, and the keys of all records are in
  the key set afterwards. So duplicates inside one batch are suppressed against each
  other: of two records with the same key that the store does not hold, the first is
  appended and the second is skipped.
\<close>

theorem within_batch_dedup:
  "write_entries w f (map Obj es) =
     (let ys = [es ! i. i \<leftarrow> [0..<length es],
                  entry_key (es ! i) \<notin> existing_entries w \<union> entry_key ` set (take i es)]
      in (None,
          w\<lparr>existing_entries := existing_entries w \<union> entry_key ` set es,
            added_count := added_count w + length ys,
            skipped_count := skipped_count w + (length es - length ys)\<rparr>,
          Some (content f @ map entry_row ys))) \<and>
   (entry_key e1 = entry_key e2 \<and> entry_key e1 \<notin> existing_entries w \<longrightarrow>
      write_entries w f [Obj e1, Obj e2] =
        (None,
         w\<lparr>existing_entries := insert (entry_key e1) (existing_entries w),
           added_count := added_count w + 1,
           skipped_count := skipped_count w + 1\<rparr>,
         Some (content f @ [entry_row e1])))"
  by (simp add: write_entries_def write_loop_objs content_def Let_def split: option.splits)

theorem within_batch_dedup_witness:
  "write_entries \<lparr>existing_entries = {}, added_count = 0, skipped_count = 0\<rparr> (Some [FIELDNAMES])
     [Obj (map_of [(''kanji'', ''a''), (''reading'', ''b'')]),
      Obj (map_of [(''kanji'', ''a''), (''reading'', ''b''), (''english'', ''x'')])]
   = (None,
      \<lparr>existing_entries = {(PyStr ''a'', PyStr ''b'')}, added_count = 1, skipped_count = 1\<rparr>,
      Some [FIELDNAMES, [''a'', ''b'', [], [], [], [], [], [], []]])"
  using within_batch_dedup [of "\<lparr>existing_entries = {}, added_count = 0, skipped_count = 0\<rparr>"
      "Some [FIELDNAMES]" "[]"
      "map_of [(''kanji'', ''a''), (''reading'', ''b'')]"
      "map_of [(''kanji'', ''a''), (''reading'', ''b''), (''english'', ''x'')]"]
  by (simp add: entry_key_def entry_row_def dict_get_def content_def)

text \<open>
  Claim C5 as stated fails: a batch of two records with the key (a, b), written to a
  store that holds the header alone, leaves one row after the header, not two.
\<close>

theorem within_batch_counterexample:
  "snd (snd (write_entries \<lparr>existing_entries = {}, added_count = 0, skipped_count = 0\<rparr>
     (Some [FIELDNAMES])
     [Obj (map_of [(''kanji'', ''a''), (''reading'', ''b'')]),
      Obj (map_of [(''kanji'', ''a''), (''reading'', ''b'')])]))
   = Some [FIELDNAMES, [''a'', ''b'', [], [], [], [], [], [], []]]"
  by (simp add: write_entries_def entry_key_def entry_row_def dict_get_def)

section \<open>Writing the same records twice\<close>



section \<open>Batches of a lesson\<close>

lemma total_batches_pos:
  assumes "0 < b"
  shows "nat (total_batches n b) = (n + nat b - 1) div nat b"
proof -
  from assms have "int n + b - 1 = int (n + nat b - 1)" by simp
  moreover from assms have "b = int (nat b)" by simp
  ultimately have "(int n + b - 1) div b = int ((n + nat b - 1) div nat b)"
    by (metis zdiv_int)
  then show ?thesis by (simp add: total_batches_def)
qed

lemma batch_at_pos:
  assumes "0 < b"
  shows "batch_at xs b k = take (nat b) (drop (k * nat b) xs)"
proof -
  define B where "B = nat b"
  with assms have b: "b = int B" by simp
  define n where "n = length xs"
  have start: "int k * int B = int (k * B)" by simp
  have stop: "min (int (k * B) + int B) (int n) = int (min (k * B + B) n)"
    by (simp only: of_nat_min of_nat_add)
  have "batch_at xs b k = py_slice xs (int (k * B)) (int (min (k * B + B) n))"
    unfolding batch_at_def Let_def b start n_def[symmetric] stop ..
  also have "\<dots> = take (min (k * B + B) n - min (k * B) n) (drop (min (k * B) n) xs)"
    unfolding py_slice_def Let_def n_def[symmetric]
    by (simp add: nat_diff_distrib' del: of_nat_min of_nat_mult of_nat_add flip: of_nat_min)
  also have "\<dots> = take B (drop (k * B) xs)"
  proof (cases "k * B \<le> n")
    case True
    then have "min (k * B + B) n - min (k * B) n = min B (n - k * B)" by arith
    with True show ?thesis by (simp add: n_def min_def)
  next
    case False
    then show ?thesis by (simp add: n_def min_def)
  qed
  finally show ?thesis by (simp add: B_def)
qed

lemma concat_chunks:
  "concat (map (\<lambda>k. take B (drop (k * B) xs)) [0..<m]) = take (m * B) xs"
proof (induction m)
  case 0
  show ?case by simp
next
  case (Suc m)
  have "Suc m * B = m * B + B" by simp
  then have "take (Suc m * B) xs = take (m * B) xs @ take B (drop (m * B) xs)"
    by (simp only: take_add)
  with Suc show ?case by simp
qed

lemma ceil_div_cover1:
  assumes "0 < (B::nat)"
  shows "n \<le> ((n + B - 1) div B) * B"
proof -
  have "n + B - 1 < B + ((n + B - 1) div B) * B"
    using assms by (rule dividend_less_div_times)
  with assms show ?thesis by arith
qed

lemma ceil_div_cover2:
  assumes "0 < (B::nat)" "0 < (n + B - 1) div B"
  shows "((n + B - 1) div B - 1) * B < n"
proof -
  have le: "((n + B - 1) div B) * B \<le> n + B - 1"
    by (rule div_times_less_eq_dividend)
  have "0 < n"
  proof (rule ccontr)
    assume "\<not> 0 < n"
    then have "(n + B - 1) div B = 0" using assms(1) by simp
    with assms(2) show False by simp
  qed
  moreover have "((n + B - 1) div B - 1) * B = ((n + B - 1) div B) * B - B"
    by (simp add: diff_mult_distrib)
  ultimately show ?thesis using le assms(1) by arith
qed

lemma ceil_div_cover3:
  assumes "0 < (B::nat)" "n \<le> m' * B"
  shows "(n + B - 1) div B \<le> m'"
proof -
  from assms have "n + B - 1 < Suc m' * B" by simp
  then have "(n + B - 1) div B < Suc m'"
    by (rule less_mult_imp_div_less)
  then show ?thesis by simp
qed

text \<open>
  Claim C8. For a batch size \<open>b > 0\<close> and a lesson of \<open>n\<close> rows, the loop of
  \<^verbatim>\<open>main\<close> forms the batches numbered \<open>0\<close> to \<open>m - 1\<close>, where \<open>m\<close> is the
  least number with \<open>n \<le> m * b\<close> (the ceiling of \<open>n / b\<close>). Batch \<open>k\<close> is the slice
  of \<open>b\<close> rows from position \<open>k * b\<close> on, cut at the end of the list; the batches in
  their order make up the list of rows, so every row is in exactly one batch and in its
  place; every batch but the last has \<open>b\<close> rows and the last has between \<open>1\<close> and
  \<open>b\<close>. With 45 rows and batch size 20 the sizes are 20, 20 and 5.
\<close>

theorem batch_partitioning:
  assumes "0 < b"
  shows "concat (map (batch_at xs b) [0..<nat (total_batches (length xs) b)]) = xs \<and>
         (\<forall>k. batch_at xs b k = take (nat b) (drop (k * nat b) xs)) \<and>
         (\<forall>k. Suc k < nat (total_batches (length xs) b) \<longrightarrow>
              int (length (batch_at xs b k)) = b) \<and>
         (0 < nat (total_batches (length xs) b) \<longrightarrow>
            0 < length (batch_at xs b (nat (total_batches (length xs) b) - 1)) \<and>
            int (length (batch_at xs b (nat (total_batches (length xs) b) - 1))) \<le> b) \<and>
         length xs \<le> nat (total_batches (length xs) b) * nat b \<and>
         (\<forall>m'. length xs \<le> m' * nat b \<longrightarrow> nat (total_batches (length xs) b) \<le> m')"
proof -
  define B where "B = nat b"
  define n where "n = length xs"
  define m where "m = nat (total_batches (length xs) b)"
  from assms have B: "0 < B" and b: "b = int B" by (simp_all add: B_def)
  have m: "m = (n + B - 1) div B"
    unfolding m_def n_def B_def by (rule total_batches_pos[OF assms])
  have at: "batch_at xs b k = take B (drop (k * B) xs)" for k
    unfolding B_def by (rule batch_at_pos[OF assms])
  have cover: "n \<le> m * B" unfolding m by (rule ceil_div_cover1[OF B])
  have last: "0 < m \<Longrightarrow> (m - 1) * B < n" unfolding m by (rule ceil_div_cover2[OF B])
  have least: "n \<le> m' * B \<Longrightarrow> m \<le> m'" for m' unfolding m by (rule ceil_div_cover3[OF B])
  have len: "length (batch_at xs b k) = min B (n - k * B)" for k
    by (simp add: at n_def min.commute)
  have "batch_at xs b = (\<lambda>k. take B (drop (k * B) xs))"
    by (rule ext) (rule at)
  then have "concat (map (batch_at xs b) [0..<m]) = take (m * B) xs"
    by (simp only: concat_chunks)
  then have c1: "concat (map (batch_at xs b) [0..<m]) = xs"
    using cover by (simp add: n_def)
  have c3: "int (length (batch_at xs b k)) = b" if "Suc k < m" for k
  proof -
    from that have "Suc k \<le> m - 1" by simp
    then have "Suc k * B \<le> (m - 1) * B" by (rule mult_le_mono1)
    also have "\<dots> < n" using that by (intro last) simp
    finally have "k * B + B < n" by simp
    then have "length (batch_at xs b k) = B" by (simp add: len)
    then show ?thesis by (simp add: b)
  qed
  have c4: "0 < length (batch_at xs b (m - 1)) \<and> int (length (batch_at xs b (m - 1))) \<le> b"
    if "0 < m"
  proof -
    have "0 < length (batch_at xs b (m - 1)) \<and> length (batch_at xs b (m - 1)) \<le> B"
      using last[OF that] B by (simp add: len)
    then show ?thesis by (simp add: b)
  qed
  show ?thesis
    using c1 at c3 c4 cover least unfolding m_def B_def n_def by blast
qed

theorem batch_partitioning_witness:
  "(0::int) < 20 \<and> nat (total_batches (length [0..<45::nat]) 20) = 3 \<and>
   concat (map (batch_at [0..<45::nat] 20) [0..<3]) = [0..<45] \<and>
   map length (map (batch_at [0..<45::nat] 20) [0..<3]) = [20, 20, 5]"
proof -
  have h: "(0::int) < 20" by simp
  have m: "nat (total_batches (length [0..<45::nat]) 20) = 3"
    by (simp add: total_batches_def)
  have sizes: "map length (map (batch_at [0..<45::nat] 20) [0..<3]) = [20, 20, 5]"
    by code_simp
  show ?thesis
    using h m sizes batch_partitioning [OF h, of "[0..<45::nat]"] by simp
qed

section \<open>The dry run\<close>

lemma process_batch_dry:
  "dry_run cfg \<Longrightarrow>
   csv_writer (process_batch cfg llm prompt items k r) = csv_writer r \<and>
   out_file (process_batch cfg llm prompt items k r) = out_file r"
  by (simp add: process_batch_def Let_def split: response.splits option.splits)

lemma fold_batches_dry:
  "dry_run cfg \<Longrightarrow>
   csv_writer (fold (process_batch cfg llm prompt items) ks r) = csv_writer r \<and>
   out_file (fold (process_batch cfg llm prompt items) ks r) = out_file r"
  by (induction ks arbitrary: r) (simp_all add: process_batch_dry)

lemma process_lesson_dry:
  "dry_run cfg \<Longrightarrow>
   csv_writer (snd (process_lesson cfg wd llm prompt l r)) = csv_writer r \<and>
   out_file (snd (process_lesson cfg wd llm prompt l r)) = out_file r"
  by (simp add: process_lesson_def Let_def fold_batches_dry split: sum.splits)

lemma run_lessons_dry:
  "dry_run cfg \<Longrightarrow>
   csv_writer (snd (run_lessons cfg wd llm prompt ls r)) = csv_writer r \<and>
   out_file (snd (run_lessons cfg wd llm prompt ls r)) = out_file r"
proof (induction ls arbitrary: r)
  case Nil
  show ?case by simp
next
  case (Cons l ls)
  obtain e r' where step: "process_lesson cfg wd llm prompt l r = (e, r')"
    by (metis surj_pair)
  with process_lesson_dry[OF Cons.prems, of wd llm prompt l r]
  have keep: "csv_writer r' = csv_writer r" "out_file r' = out_file r" by simp_all
  show ?case
  proof (cases e)
    case None
    with step Cons.IH[OF Cons.prems, of r'] keep show ?thesis by simp
  next
    case (Some x)
    with step keep show ?thesis by simp
  qed
qed

text \<open>
  Claim C6. In a run with the dry-run flag set, whatever the lessons, the answers of the
  completion chain and the way the run ends, no writer is ever constructed and the
  output file at the end is the output file found at the start (also when it is
  missing).
\<close>

theorem dry_run_no_side_effects:
  assumes "dry_run cfg"
  shows "out_file (snd (main cfg wd llm)) = output_csv wd \<and>
         csv_writer (snd (main cfg wd llm)) = None"
  using assms
  by (simp add: main_def Let_def run_lessons_dry split: sum.splits)

theorem dry_run_no_side_effects_witness:
  "dry_run \<lparr>lesson = ''1'', batch_size = 1, dry_run = True\<rparr> \<and>
   out_file (snd (main \<lparr>lesson = ''1'', batch_size = 1, dry_run = True\<rparr>
       \<lparr>api_key = True,
          schema_file = Some (Document (JObject (map_of
            [(''columns'', ''[]''), (''verb_exceptions'', ''{}''), (''irregular_verbs'', ''{}'')]))),
          processed_dir = (\<lambda>name. if name = ''genki_vocab_L01.csv''
                           then Some [[''w''], [''a''], [''b'']] else None),
          output_csv = Some [[''x'', ''y'']]\<rparr>
       (\<lambda>n prompt items. if n = 0 then Raises else Returns [Obj (map_of [(''kanji'', ''k'')])])))
     = Some [[''x'', ''y'']]"
  using dry_run_no_side_effects [of "\<lparr>lesson = ''1'', batch_size = 1, dry_run = True\<rparr>"
      "\<lparr>api_key = True,
          schema_file = Some (Document (JObject (map_of
            [(''columns'', ''[]''), (''verb_exceptions'', ''{}''), (''irregular_verbs'', ''{}'')]))),
          processed_dir = (\<lambda>name. if name = ''genki_vocab_L01.csv''
                           then Some [[''w''], [''a''], [''b'']] else None),
          output_csv = Some [[''x'', ''y'']]\<rparr>"
      "\<lambda>n prompt items. if n = 0 then Raises else Returns [Obj (map_of [(''kanji'', ''k'')])]"]
  by simp

section \<open>The loop over the lessons\<close>
















section \<open>A batch that fails while it is written\<close>

text \<open>
  Whatever happens after the chain has answered, the step of a batch adds the length of
  the answer to \<^verbatim>\<open>grand_total_processed\<close>; only an exception of the chain itself
  leaves the counter as it was.
\<close>

lemma process_batch_counter:
  "grand_total_processed (process_batch cfg llm pr items k r)
     = grand_total_processed r
       + (case process_vocab_batch llm (calls r) pr (batch_at items (batch_size cfg) k) of
            Raises \<Rightarrow> 0 | Returns results \<Rightarrow> length results)"
  by (simp add: process_batch_def Let_def split: response.splits option.splits prod.splits)

text \<open>
  Claim C3, evaluated. A lesson of three rows is processed with batch size 1. The chain
  answers the first and the third batch with one object each and the second with an
  array whose one element is not an object, on which \<^verbatim>\<open>write_entries\<close> raises
  \<^verbatim>\<open>AttributeError\<close>. The exception is caught and the third batch is processed:
  the run ends normally and the rows of batches one and three are in the store. But
  \<^verbatim>\<open>grand_total_processed\<close> is 3: the length of the answer to the second batch was
  added before \<^verbatim>\<open>write_entries\<close> was called, so the batch that failed is counted.
\<close>

theorem failed_batch_is_counted:
  "main
     \<lparr>lesson = ''1'', batch_size = 1, dry_run = False\<rparr>
     \<lparr>api_key = True,
        schema_file = Some (Document (JObject (map_of
          [(''columns'', ''[]''), (''verb_exceptions'', ''{}''), (''irregular_verbs'', ''{}'')]))),
        processed_dir = (\<lambda>name. if name = ''genki_vocab_L01.csv''
                         then Some [[''w''], [''a''], [''b''], [''c'']] else None),
        output_csv = None\<rparr>
     (\<lambda>n prompt items.
        if n = 1 then Returns [NonObj]
        else Returns [Obj (map_of [(''kanji'', if n = 0 then ''x'' else ''y'')])])
   = (None,
      \<lparr>csv_writer = Some \<lparr>existing_entries = {(PyStr ''x'', PyStr []), (PyStr ''y'', PyStr [])},
                           added_count = 2, skipped_count = 0\<rparr>,
        out_file = Some [FIELDNAMES, [''x'', [], [], [], [], [], [], [], []],
                         [''y'', [], [], [], [], [], [], [], []]],
        grand_total_processed = 3, grand_total_items = 3, calls = 3,
        printed = [Banner ''01'', Found 3, BatchOk 1, BatchError, BatchOk 1]\<rparr>)"
  by code_simp

section \<open>Expanding the lesson argument\<close>









declare digits_of.simps [simp del]












section \<open>Loading the schema\<close>

text \<open>
  Claim C9 as stated fails: a schema document that lacks required keys is loaded
  by \<^verbatim>\<open>load_schema\<close> without an exception.
\<close>

theorem load_schema_counterexample:
  "load_schema (Some (Document (JObject (map_of [(''columns'', ''[]'')]))))
     = Inr (JObject (map_of [(''columns'', ''[]'')]))"
  by (simp add: load_schema_def)

text \<open>
  Claim C9, as amended. \<^verbatim>\<open>load_schema\<close> raises \<^verbatim>\<open>FileNotFoundError\<close> when the
  schema file is missing and the decoder's error when its text is not JSON; every
  document that parses is returned as it is, with no check of its shape or keys. The
  failure on a document that is not an object (\<^verbatim>\<open>TypeError\<close>) or that lacks one of
  the keys \<^verbatim>\<open>columns\<close>, \<^verbatim>\<open>verb_exceptions\<close>, \<^verbatim>\<open>irregular_verbs\<close>
  (\<^verbatim>\<open>KeyError\<close>) comes from \<^verbatim>\<open>create_batch_prompt_template\<close>, which reads
  the three keys. In each of these cases \<^verbatim>\<open>main\<close> ends with the exception before
  the writer is constructed and before any lesson is processed.
\<close>

theorem schema_loading:
  "load_schema None = Inl FileNotFoundError \<and>
   load_schema (Some NotJSON) = Inl JSONDecodeError \<and>
   load_schema (Some (Document d)) = Inr d \<and>
   create_batch_prompt_template JOther = Inl TypeError \<and>
   (m ''columns'' = None \<or> m ''verb_exceptions'' = None \<or> m ''irregular_verbs'' = None \<longrightarrow>
      create_batch_prompt_template (JObject m) = Inl KeyError) \<and>
   (api_key wd \<and> \<not> isl (parse_lesson_arg (lesson cfg)) \<and>
    (schema_file wd = None \<or> schema_file wd = Some NotJSON \<or>
     schema_file wd = Some (Document JOther) \<or>
     (\<exists>m'. schema_file wd = Some (Document (JObject m')) \<and>
        (m' ''columns'' = None \<or> m' ''verb_exceptions'' = None \<or> m' ''irregular_verbs'' = None))) \<longrightarrow>
      (\<exists>e. main cfg wd llm =
         (Some e, \<lparr>csv_writer = None, out_file = output_csv wd, grand_total_processed = 0,
                    grand_total_items = 0, calls = 0, printed = []\<rparr>)))"
proof -
  have k: "create_batch_prompt_template (JObject m) = Inl KeyError"
    if "m ''columns'' = None \<or> m ''verb_exceptions'' = None \<or> m ''irregular_verbs'' = None" for m
    using that by (auto simp: create_batch_prompt_template_def split: option.splits)
  have t: "create_batch_prompt_template JOther = Inl TypeError"
    by (simp add: create_batch_prompt_template_def)
  have l: "load_schema None = Inl FileNotFoundError" "load_schema (Some NotJSON) = Inl JSONDecodeError"
    "load_schema (Some (Document d)) = Inr d" for d
    by (simp_all add: load_schema_def)
  have main_fails: "\<exists>e. main cfg wd llm =
         (Some e, \<lparr>csv_writer = None, out_file = output_csv wd, grand_total_processed = 0,
                    grand_total_items = 0, calls = 0, printed = []\<rparr>)"
    if "api_key wd" "\<not> isl (parse_lesson_arg (lesson cfg))"
      "schema_file wd = None \<or> schema_file wd = Some NotJSON \<or>
       schema_file wd = Some (Document JOther) \<or>
       (\<exists>m'. schema_file wd = Some (Document (JObject m')) \<and>
        (m' ''columns'' = None \<or> m' ''verb_exceptions'' = None \<or> m' ''irregular_verbs'' = None))"
  proof -
    from that(2) obtain ls where ls: "parse_lesson_arg (lesson cfg) = Inr ls"
      by (cases "parse_lesson_arg (lesson cfg)") auto
    from that(3) consider "load_schema (schema_file wd) = Inl FileNotFoundError"
      | "load_schema (schema_file wd) = Inl JSONDecodeError"
      | "load_schema (schema_file wd) = Inr JOther"
      | m' where "load_schema (schema_file wd) = Inr (JObject m')"
          "m' ''columns'' = None \<or> m' ''verb_exceptions'' = None \<or> m' ''irregular_verbs'' = None"
      using l by auto
    then show ?thesis
    proof cases
      case 1
      then show ?thesis using that(1) ls by (simp add: main_def)
    next
      case 2
      then show ?thesis using that(1) ls by (simp add: main_def)
    next
      case 3
      then show ?thesis using that(1) ls t by (simp add: main_def)
    next
      case 4
      then show ?thesis using that(1) ls k[OF 4(2)] by (simp add: main_def)
    qed
  qed
  show ?thesis
  proof (intro conjI impI)
    show "load_schema None = Inl FileNotFoundError" by (rule l)
    show "load_schema (Some NotJSON) = Inl JSONDecodeError" by (rule l)
    show "load_schema (Some (Document d)) = Inr d" by (rule l)
    show "create_batch_prompt_template JOther = Inl TypeError" by (rule t)
    show "create_batch_prompt_template (JObject m) = Inl KeyError"
      if "m ''columns'' = None \<or> m ''verb_exceptions'' = None \<or> m ''irregular_verbs'' = None"
      using that by (rule k)
    show "\<exists>e. main cfg wd llm =
         (Some e, \<lparr>csv_writer = None, out_file = output_csv wd, grand_total_processed = 0,
                    grand_total_items = 0, calls = 0, printed = []\<rparr>)"
      if "api_key wd \<and> \<not> isl (parse_lesson_arg (lesson cfg)) \<and>
        (schema_file wd = None \<or> schema_file wd = Some NotJSON \<or>
         schema_file wd = Some (Document JOther) \<or>
         (\<exists>m'. schema_file wd = Some (Document (JObject m')) \<and>
            (m' ''columns'' = None \<or> m' ''verb_exceptions'' = None \<or> m' ''irregular_verbs'' = None)))"
    proof (rule main_fails)
      show "api_key wd" using that by (rule conjunct1)
      show "\<not> isl (parse_lesson_arg (lesson cfg))" using that by (elim conjE)
      show "schema_file wd = None \<or> schema_file wd = Some NotJSON \<or>
         schema_file wd = Some (Document JOther) \<or>
         (\<exists>m'. schema_file wd = Some (Document (JObject m')) \<and>
            (m' ''columns'' = None \<or> m' ''verb_exceptions'' = None \<or> m' ''irregular_verbs'' = None))"
        using that by (elim conjE)
    qed
  qed
qed

theorem schema_loading_witness:
  "create_batch_prompt_template
     (JObject (map_of [(''columns'', ''[]''), (''verb_exceptions'', ''{}'')])) = Inl KeyError \<and>
   (\<exists>e. main \<lparr>lesson = ''1'', batch_size = 20, dry_run = False\<rparr>
      \<lparr>api_key = True,
         schema_file = Some (Document (JObject
           (map_of [(''columns'', ''[]''), (''verb_exceptions'', ''{}'')]))),
         processed_dir = (\<lambda>name. None), output_csv = None\<rparr>
      (\<lambda>n prompt items. Raises)
      = (Some e, \<lparr>csv_writer = None, out_file = None, grand_total_processed = 0,
                  grand_total_items = 0, calls = 0, printed = []\<rparr>))"
proof -
  have h1: "map_of [(''columns'', ''[]''), (''verb_exceptions'', ''{}'')] ''irregular_verbs'' = None"
    by simp
  have h2: "\<not> isl (parse_lesson_arg ''1'')"
    by (simp add: parse_lesson_arg_def)
  show ?thesis
    using h1 h2
      schema_loading [of JOther "map_of [(''columns'', ''[]''), (''verb_exceptions'', ''{}'')]"
        "\<lparr>api_key = True,
           schema_file = Some (Document (JObject
             (map_of [(''columns'', ''[]''), (''verb_exceptions'', ''{}'')]))),
           processed_dir = (\<lambda>name. None), output_csv = None\<rparr>"
        "\<lparr>lesson = ''1'', batch_size = 20, dry_run = False\<rparr>"
        "\<lambda>n prompt items. Raises"]
    by simp
qed

end
